theory Spec2Isabelle
  imports Main
begin

section \<open>JavaScript values and strings\<close>

text \<open>
  The page function of \<open>extract_page_elements\<close> reads properties of DOM elements that the
  source types as \<open>any\<close>.  A string-valued property read is modelled as \<open>string option\<close>:
  \<open>None\<close> is \<open>undefined\<close>/\<open>null\<close> (the element has no such property), \<open>Some s\<close> is the
  string \<open>s\<close>.  A JavaScript condition \<open>if (v)\<close> on such a value holds exactly for a
  non-empty string.
\<close>

definition truthy :: "string option \<Rightarrow> bool" where
  "truthy v = (case v of None \<Rightarrow> False | Some s \<Rightarrow> s \<noteq> [])"

text \<open>Interpolation \<open>${v}\<close> in a template literal.\<close>

definition interpolate :: "string option \<Rightarrow> string" where
  "interpolate v = (case v of None \<Rightarrow> ''undefined'' | Some s \<Rightarrow> s)"

definition dq :: string where
  "dq = [CHR 0x22]"

text \<open>\<open>Array.prototype.push\<close>, returning the extended array.\<close>

definition push :: "'a list \<Rightarrow> 'a \<Rightarrow> 'a list" where
  "push xs x = xs @ [x]"

text \<open>
  \<open>forEach\<close> over a list, threading the state that the callback mutates; the callback
  receives the item and its index.
\<close>

fun forEach_from :: "nat \<Rightarrow> 'a list \<Rightarrow> ('a \<Rightarrow> nat \<Rightarrow> 's \<Rightarrow> 's) \<Rightarrow> 's \<Rightarrow> 's" where
  "forEach_from i [] f s = s"
| "forEach_from i (x # xs) f s = forEach_from (Suc i) xs f (f x i s)"

definition forEach :: "'a list \<Rightarrow> ('a \<Rightarrow> nat \<Rightarrow> 's \<Rightarrow> 's) \<Rightarrow> 's \<Rightarrow> 's" where
  "forEach xs f s = forEach_from 0 xs f s"

text \<open>Decimal rendering of a non-negative integer, as \<open>${index + 1}\<close> produces it.\<close>

definition digit_char :: "nat \<Rightarrow> char" where
  "digit_char d = ''0123456789'' ! d"

fun show_nat :: "nat \<Rightarrow> string" where
  "show_nat n = (if n < 10 then [digit_char n] else show_nat (n div 10) @ [digit_char (n mod 10)])"

declare show_nat.simps [simp del]

definition show_int :: "int \<Rightarrow> string" where
  "show_int i = (if i < 0 then ''-'' @ show_nat (nat (- i)) else show_nat (nat i))"

text \<open>\<open>s.split(c)\<close> for a one-character separator: the empty string yields one empty piece.\<close>

fun split :: "char \<Rightarrow> string \<Rightarrow> string list" where
  "split c [] = [[]]"
| "split c (x # xs) =
     (if x = c then [] # split c xs
      else (case split c xs of [] \<Rightarrow> [[x]] | w # ws \<Rightarrow> (x # w) # ws))"

text \<open>\<open>pieces.join(sep)\<close>.\<close>

fun join :: "string \<Rightarrow> string list \<Rightarrow> string" where
  "join sep [] = []"
| "join sep [w] = w"
| "join sep (w # v # ws) = w @ sep @ join sep (v # ws)"

text \<open>
  Strings are sequences of UTF-8 bytes.  \<open>s.trim()\<close> removes white space and line
  terminators from both ends: the code points U+0009 to U+000D, U+0020, U+00A0, U+1680,
  U+2000 to U+200A, U+2028, U+2029, U+202F, U+205F, U+3000 and U+FEFF, listed here by
  their encodings.
\<close>

definition white_space :: "string list" where
  "white_space =
     [[CHR 0x09], [CHR 0x0A], [CHR 0x0B], [CHR 0x0C], [CHR 0x0D], [CHR 0x20],
      [CHR 0xC2, CHR 0xA0],
      [CHR 0xE1, CHR 0x9A, CHR 0x80],
      [CHR 0xE2, CHR 0x80, CHR 0x80], [CHR 0xE2, CHR 0x80, CHR 0x81],
      [CHR 0xE2, CHR 0x80, CHR 0x82], [CHR 0xE2, CHR 0x80, CHR 0x83],
      [CHR 0xE2, CHR 0x80, CHR 0x84], [CHR 0xE2, CHR 0x80, CHR 0x85],
      [CHR 0xE2, CHR 0x80, CHR 0x86], [CHR 0xE2, CHR 0x80, CHR 0x87],
      [CHR 0xE2, CHR 0x80, CHR 0x88], [CHR 0xE2, CHR 0x80, CHR 0x89],
      [CHR 0xE2, CHR 0x80, CHR 0x8A],
      [CHR 0xE2, CHR 0x80, CHR 0xA8], [CHR 0xE2, CHR 0x80, CHR 0xA9],
      [CHR 0xE2, CHR 0x80, CHR 0xAF],
      [CHR 0xE2, CHR 0x81, CHR 0x9F],
      [CHR 0xE3, CHR 0x80, CHR 0x80],
      [CHR 0xEF, CHR 0xBB, CHR 0xBF]]"

text \<open>\<open>strip tokens s\<close> removes from the front of \<open>s\<close> every leading occurrence of a token.\<close>

function strip :: "string list \<Rightarrow> string \<Rightarrow> string" where
  "strip tokens s =
     (case find (\<lambda>w. w \<noteq> [] \<and> take (length w) s = w) tokens of
        None \<Rightarrow> s
      | Some w \<Rightarrow> strip tokens (drop (length w) s))"
  by pat_completeness auto
termination
proof (relation "measure (\<lambda>(tokens, s). length s)")
  show "wf (measure (\<lambda>(tokens, s). length s))"
    by simp
next
  fix tokens :: "string list" and s w :: string
  assume "find (\<lambda>w. w \<noteq> [] \<and> take (length w) s = w) tokens = Some w"
  then have "w \<noteq> []" and "take (length w) s = w"
    by (auto simp: find_Some_iff)
  then have "s \<noteq> []"
    by auto
  with \<open>w \<noteq> []\<close> show "((tokens, drop (length w) s), (tokens, s)) \<in> measure (\<lambda>(tokens, s). length s)"
    by simp
qed

declare strip.simps [simp del]

definition trimStart :: "string \<Rightarrow> string" where
  "trimStart s = strip white_space s"

definition trimEnd :: "string \<Rightarrow> string" where
  "trimEnd s = rev (strip (map rev white_space) (rev s))"

definition trim :: "string \<Rightarrow> string" where
  "trim s = trimEnd (trimStart s)"

text \<open>\<open>s.toLowerCase()\<close>, folding the ASCII capitals (tag and type names are ASCII).\<close>

definition lower_char :: "char \<Rightarrow> char" where
  "lower_char c =
     (case map_of (zip ''ABCDEFGHIJKLMNOPQRSTUVWXYZ'' ''abcdefghijklmnopqrstuvwxyz'') c of
        None \<Rightarrow> c
      | Some l \<Rightarrow> l)"

definition toLowerCase :: "string \<Rightarrow> string" where
  "toLowerCase s = map lower_char s"

section \<open>The document\<close>

text \<open>
  A document is the list of its elements in document order.  Of an element the model keeps
  what the page function reads: \<open>tagName\<close>, the content attribute \<open>type\<close> (which the
  selectors \<open>input[type="submit"]\<close> and \<open>input[type="button"]\<close> test) and the property reads
  \<open>id\<close>, \<open>name\<close>, \<open>type\<close>, \<open>placeholder\<close>, \<open>className\<close>, \<open>value\<close>, \<open>required\<close>,
  \<open>textContent\<close>, \<open>action\<close> and whether \<open>offsetParent\<close> is \<open>null\<close>.  The property
  \<open>type\<close> is not the attribute: for an HTML form control the browser reports a type
  (\<open>text\<close>, \<open>submit\<close>, \<open>textarea\<close>, ...) also when the attribute is absent, while an
  element that the tag selector matches but that is no HTML form control (an \<open>input\<close>
  element outside the HTML namespace, say) has no \<open>name\<close>, \<open>type\<close> or \<open>placeholder\<close>
  property at all.
\<close>

record element =
  tagName :: string
  type_attribute :: "string option"
  el_id :: "string option"
  el_name :: "string option"
  el_type :: "string option"
  el_placeholder :: "string option"
  el_className :: "string option"
  el_value :: "string option"
  el_required :: "bool option"
  el_textContent :: "string option"
  el_action :: "string option"
  offsetParent_null :: bool

type_synonym document = "element list"

text \<open>
  The three selector lists of the source, parsed: a compound selector is a tag name,
  optionally with a \<open>[type="v"]\<close> attribute test.  In an HTML document the tag name and
  the value of the \<open>type\<close> attribute are matched without regard to ASCII case.
\<close>

datatype compound = Tag string | TagType string string

fun matches :: "compound \<Rightarrow> element \<Rightarrow> bool" where
  "matches (Tag t) e = (toLowerCase (tagName e) = t)"
| "matches (TagType t v) e =
     (toLowerCase (tagName e) = t \<and>
      (case type_attribute e of None \<Rightarrow> False | Some a \<Rightarrow> toLowerCase a = v))"

definition querySelectorAll :: "document \<Rightarrow> compound list \<Rightarrow> element list" where
  "querySelectorAll doc sel = filter (\<lambda>e. list_ex (\<lambda>c. matches c e) sel) doc"

definition form_selector :: "compound list" where
  "form_selector = [Tag ''form'']"

definition input_selector :: "compound list" where
  "input_selector = [Tag ''input'', Tag ''textarea'', Tag ''select'']"

definition button_selector :: "compound list" where
  "button_selector = [Tag ''button'', TagType ''input'' ''submit'', TagType ''input'' ''button'']"

section \<open>Element descriptors\<close>

record form_descriptor =
  fd_tag :: string
  fd_selector :: string
  fd_id :: "string option"
  fd_className :: "string option"
  fd_action :: "string option"

record input_descriptor =
  in_tag :: string
  in_type :: "string option"
  in_id :: "string option"
  in_name :: "string option"
  in_className :: "string option"
  in_placeholder :: "string option"
  in_selectors :: "string list"
  in_value :: "string option"
  in_required :: "bool option"
  in_visible :: bool

record button_descriptor =
  bt_tag :: string
  bt_type :: "string option"
  bt_id :: "string option"
  bt_className :: "string option"
  bt_textContent :: "string option"
  bt_value :: "string option"
  bt_selectors :: "string list"
  bt_visible :: bool

datatype descriptor =
    FormDescriptor form_descriptor
  | InputDescriptor input_descriptor
  | ButtonDescriptor button_descriptor

section \<open>The page function of \<open>extract_page_elements\<close>\<close>

text \<open>
  The three \<open>forEach\<close> callbacks.  Each pushes one object literal onto
  \<open>collectedElements\<close>; the object literal is given a name of its own
  (\<open>form_object\<close>, \<open>input_object\<close>, \<open>button_object\<close>).
\<close>

definition form_object :: "element \<Rightarrow> nat \<Rightarrow> descriptor" where
  "form_object form index =
     FormDescriptor \<lparr>
       fd_tag = ''form'',
       fd_selector = ''form:nth-child('' @ show_nat (index + 1) @ '')'',
       fd_id = el_id form,
       fd_className = el_className form,
       fd_action = el_action form \<rparr>"

definition form_callback :: "element \<Rightarrow> nat \<Rightarrow> descriptor list \<Rightarrow> descriptor list" where
  "form_callback form index collectedElements = push collectedElements (form_object form index)"

text \<open>The selector hints of an input, textarea or select element.\<close>

definition input_selectorHints :: "element \<Rightarrow> string list" where
  "input_selectorHints input =
     (let h0 = [];
          h1 = (if truthy (el_id input) then push h0 (''#'' @ interpolate (el_id input)) else h0);
          h2 = (if truthy (el_name input)
                then push h1 (''[name='' @ dq @ interpolate (el_name input) @ dq @ '']'') else h1);
          h3 = (if truthy (el_type input)
                then push h2 (''input[type='' @ dq @ interpolate (el_type input) @ dq @ '']'') else h2);
          h4 = (if truthy (el_placeholder input)
                then push h3 (''[placeholder='' @ dq @ interpolate (el_placeholder input) @ dq @ '']'')
                else h3)
      in h4)"

definition input_object :: "element \<Rightarrow> string list \<Rightarrow> descriptor" where
  "input_object input selectorHints =
     InputDescriptor \<lparr>
       in_tag = toLowerCase (tagName input),
       in_type = el_type input,
       in_id = el_id input,
       in_name = el_name input,
       in_className = el_className input,
       in_placeholder = el_placeholder input,
       in_selectors = selectorHints,
       in_value = el_value input,
       in_required = el_required input,
       in_visible = (\<not> offsetParent_null input) \<rparr>"

definition input_callback :: "element \<Rightarrow> nat \<Rightarrow> descriptor list \<Rightarrow> descriptor list" where
  "input_callback input index collectedElements =
     (let selectorHints = input_selectorHints input
      in push collectedElements (input_object input selectorHints))"

text \<open>
  The selector hints of a clickable control: \<open>classes\<close> are the non-empty pieces of
  \<open>className\<close> between single spaces (\<open>className.split(" ").filter(Boolean)\<close>).
\<close>

definition classes_of :: "string \<Rightarrow> string list" where
  "classes_of className = filter (\<lambda>w. w \<noteq> []) (split CHR '' '' className)"

definition button_selectorHints :: "element \<Rightarrow> string list" where
  "button_selectorHints button =
     (let h0 = [];
          h1 = (if truthy (el_id button) then push h0 (''#'' @ interpolate (el_id button)) else h0);
          h2 = (if truthy (el_className button)
                then (let classes = classes_of (interpolate (el_className button))
                      in if length classes > 0 then push h1 (''.'' @ join ''.'' classes) else h1)
                else h1);
          h3 = (if truthy (el_type button)
                then push h2 (''[type='' @ dq @ interpolate (el_type button) @ dq @ '']'') else h2)
      in h3)"

definition button_object :: "element \<Rightarrow> string list \<Rightarrow> descriptor" where
  "button_object button selectorHints =
     ButtonDescriptor \<lparr>
       bt_tag = toLowerCase (tagName button),
       bt_type = el_type button,
       bt_id = el_id button,
       bt_className = el_className button,
       bt_textContent = map_option trim (el_textContent button),
       bt_value = el_value button,
       bt_selectors = selectorHints,
       bt_visible = (\<not> offsetParent_null button) \<rparr>"

definition button_callback :: "element \<Rightarrow> nat \<Rightarrow> descriptor list \<Rightarrow> descriptor list" where
  "button_callback button index collectedElements =
     (let selectorHints = button_selectorHints button
      in push collectedElements (button_object button selectorHints))"

text \<open>
  The function handed to \<open>page.evaluate\<close>: \<open>focus\<close> is its argument, \<open>doc\<close> the document
  of the page it runs in.
\<close>

definition page_function :: "document \<Rightarrow> string \<Rightarrow> descriptor list" where
  "page_function doc focus =
     (let collectedElements = [];
          formElements = querySelectorAll doc form_selector;
          collectedElements = forEach formElements form_callback collectedElements;
          inputElements = querySelectorAll doc input_selector;
          collectedElements = forEach inputElements input_callback collectedElements;
          buttonElements = querySelectorAll doc button_selector;
          collectedElements = forEach buttonElements button_callback collectedElements
      in collectedElements)"

text \<open>
  The tool's \<open>execute\<close>.  \<open>page.evaluate\<close> either runs the page function in the current
  document (\<open>Inr doc\<close>) or rejects (\<open>Inl e\<close>); \<open>execute\<close> has no handler, so a rejection
  leaves it as a thrown error.  The argument is \<open>None\<close> for \<open>null\<close>.
\<close>

datatype error = Error (message: string)

record extraction =
  elements :: "descriptor list"

definition extractPageElements_execute ::
  "error + document \<Rightarrow> string option \<Rightarrow> error + extraction" where
  "extractPageElements_execute page selectionArea =
     (case page of
        Inl e \<Rightarrow> Inl e
      | Inr doc \<Rightarrow>
          (let extractedElements =
                 page_function doc (if truthy selectionArea then interpolate selectionArea else ''form'')
           in Inr \<lparr> elements = extractedElements \<rparr>))"

text \<open>
  The list of selector candidates of a descriptor.  A form descriptor carries a single
  \<open>selector\<close> string and no candidate list.
\<close>

fun selector_candidates :: "descriptor \<Rightarrow> string list option" where
  "selector_candidates (FormDescriptor d) = None"
| "selector_candidates (InputDescriptor d) = Some (in_selectors d)"
| "selector_candidates (ButtonDescriptor d) = Some (bt_selectors d)"

text \<open>
  Whether an element offers anything to build a selector from: as an input, textarea or
  select a non-empty \<open>id\<close>, \<open>name\<close>, \<open>type\<close> or \<open>placeholder\<close>; as a clickable control a
  non-empty \<open>id\<close>, a class token or a non-empty \<open>type\<close>.
\<close>

definition input_has_source :: "element \<Rightarrow> bool" where
  "input_has_source e =
     (truthy (el_id e) \<or> truthy (el_name e) \<or> truthy (el_type e) \<or> truthy (el_placeholder e))"

definition button_has_source :: "element \<Rightarrow> bool" where
  "button_has_source e =
     (truthy (el_id e) \<or>
      (truthy (el_className e) \<and> classes_of (interpolate (el_className e)) \<noteq> []) \<or>
      truthy (el_type e))"

subsection \<open>The extraction as the specification words it\<close>

text \<open>
  The specification describes the result as three enumerations, each in document order,
  concatenated: the forms, then the input, textarea and select elements, then the clickable
  controls (buttons and inputs typed submit or button).  The categories are written here as
  predicates on an element, independently of the selector lists above.
\<close>

definition is_form :: "element \<Rightarrow> bool" where
  "is_form e = (toLowerCase (tagName e) = ''form'')"

definition is_field :: "element \<Rightarrow> bool" where
  "is_field e = (toLowerCase (tagName e) \<in> {''input'', ''textarea'', ''select''})"

definition is_clickable :: "element \<Rightarrow> bool" where
  "is_clickable e =
     (toLowerCase (tagName e) = ''button'' \<or>
      (toLowerCase (tagName e) = ''input'' \<and>
       map_option toLowerCase (type_attribute e) \<in> {Some ''submit'', Some ''button''}))"

definition form_enumeration :: "document \<Rightarrow> descriptor list" where
  "form_enumeration doc = map (\<lambda>(index, form). form_object form index) (enumerate 0 (filter is_form doc))"

definition field_enumeration :: "document \<Rightarrow> descriptor list" where
  "field_enumeration doc = map (\<lambda>input. input_object input (input_selectorHints input)) (filter is_field doc)"

definition clickable_enumeration :: "document \<Rightarrow> descriptor list" where
  "clickable_enumeration doc =
     map (\<lambda>button. button_object button (button_selectorHints button)) (filter is_clickable doc)"

section \<open>The browser engine and the session\<close>

text \<open>
  The tools drive one page of an external browser engine.  The model records every command
  a tool sends to the page or the browser, in order (\<open>issued\<close>), and the lines main writes
  with \<open>console.log\<close> (\<open>console\<close>).  The engine is a parameter: given the commands issued
  so far and the next command it says whether that command rejects (\<open>Inl\<close>, with the
  error) or resolves (\<open>Inr\<close>, with the bytes of the image for a screenshot and an
  irrelevant payload otherwise).  Spinner and colour output (\<open>ora\<close>, \<open>chalk\<close>) is terminal
  decoration and is left out; \<open>boxen\<close> output is recorded as a \<open>Box\<close> with its text.
\<close>

datatype command =
    Goto string nat
  | WaitForSelector string nat
  | Click string
  | Fill string string
  | WaitForTimeout int
  | Screenshot string
  | BrowserClose

type_synonym engine = "command list \<Rightarrow> command \<Rightarrow> error + string"

datatype console_entry = Line string | Box string

record session =
  issued :: "command list"
  console :: "console_entry list"

text \<open>
  An asynchronous operation on the session: it rejects with an error or resolves with a
  value, and leaves the session as it is afterwards.  \<open>andThen\<close> is sequencing with
  \<open>await\<close>, \<open>tryCatch\<close> a \<open>try { ... } catch (error) { ... }\<close> block.
\<close>

type_synonym 'a operation = "session \<Rightarrow> (error + 'a) \<times> session"

definition resolve :: "'a \<Rightarrow> 'a operation" where
  "resolve x s = (Inr x, s)"

definition andThen :: "'a operation \<Rightarrow> ('a \<Rightarrow> 'b operation) \<Rightarrow> 'b operation" where
  "andThen m f s = (case m s of (Inl e, s') \<Rightarrow> (Inl e, s') | (Inr x, s') \<Rightarrow> f x s')"

definition tryCatch :: "'a operation \<Rightarrow> (error \<Rightarrow> 'a operation) \<Rightarrow> 'a operation" where
  "tryCatch m handler s = (case m s of (Inl e, s') \<Rightarrow> handler e s' | (Inr x, s') \<Rightarrow> (Inr x, s'))"

definition perform :: "engine \<Rightarrow> command \<Rightarrow> string operation" where
  "perform E c s = (E (issued s) c, s\<lparr> issued := issued s @ [c] \<rparr>)"

definition console_log :: "console_entry \<Rightarrow> session \<Rightarrow> session" where
  "console_log entry s = s\<lparr> console := console s @ [entry] \<rparr>"

definition log :: "console_entry \<Rightarrow> unit operation" where
  "log entry s = (Inr (), console_log entry s)"

section \<open>The tools\<close>

text \<open>\<open>navigate\<close> (lines 125-139).\<close>

definition navigateTool_execute :: "engine \<Rightarrow> string \<Rightarrow> string operation" where
  "navigateTool_execute E url =
     tryCatch
       (andThen (perform E (Goto url 30000)) (\<lambda>_.
        andThen (perform E (WaitForTimeout 2000)) (\<lambda>_.
        resolve (''Successfully navigated to: '' @ url))))
       (\<lambda>error. resolve (''Failed to navigate to '' @ url @ '': '' @ message error))"

text \<open>\<open>clickOnElement\<close> (lines 148-165).\<close>

definition clickOnElementTool_execute :: "engine \<Rightarrow> string \<Rightarrow> string operation" where
  "clickOnElementTool_execute E selector =
     tryCatch
       (andThen (perform E (WaitForSelector selector 10000)) (\<lambda>_.
        andThen (perform E (Click selector)) (\<lambda>_.
        andThen (perform E (WaitForTimeout 1000)) (\<lambda>_.
        resolve (''Successfully clicked on element: '' @ selector)))))
       (\<lambda>error. resolve (''Failed to click element '' @ selector @ '': '' @ message error))"

text \<open>\<open>type\<close> (lines 175-193).\<close>

definition typeTool_execute :: "engine \<Rightarrow> string \<Rightarrow> string \<Rightarrow> string operation" where
  "typeTool_execute E selector text =
     tryCatch
       (andThen (perform E (WaitForSelector selector 10000)) (\<lambda>_.
        andThen (perform E (Fill selector [])) (\<lambda>_.
        andThen (perform E (Fill selector text)) (\<lambda>_.
        andThen (perform E (WaitForTimeout 500)) (\<lambda>_.
        resolve (''Successfully typed '' @ dq @ text @ dq @ '' into element: '' @ selector))))))
       (\<lambda>error. resolve (''Failed to type into element '' @ selector @ '': '' @ message error))"

text \<open>\<open>wait\<close> (lines 218-225); the duration is an integral number.\<close>

definition waitTool_execute :: "engine \<Rightarrow> int \<Rightarrow> string operation" where
  "waitTool_execute E duration =
     andThen (perform E (WaitForTimeout duration)) (\<lambda>_.
     resolve (''Waited for '' @ show_int duration @ '' milliseconds.''))"

text \<open>
  \<open>take_screenshot\<close> (lines 91-116).  \<open>now\<close> is the reading of \<open>Date.now()\<close> when the path
  is computed; \<open>toString_base64\<close> is \<open>Buffer.toString("base64")\<close>.
\<close>

definition base64_alphabet :: string where
  "base64_alphabet = ''ABCDEFGHIJKLMNOPQRSTUVWXYZabcdefghijklmnopqrstuvwxyz0123456789+/''"

definition sextet :: "nat \<Rightarrow> char" where
  "sextet k = base64_alphabet ! (k mod 64)"

fun toString_base64 :: "string \<Rightarrow> string" where
  "toString_base64 [] = []"
| "toString_base64 [a] =
     (let n = of_char a * 65536
      in [sextet (n div 262144), sextet (n div 4096), CHR ''='', CHR ''=''])"
| "toString_base64 [a, b] =
     (let n = of_char a * 65536 + of_char b * 256
      in [sextet (n div 262144), sextet (n div 4096), sextet (n div 64), CHR ''=''])"
| "toString_base64 (a # b # c # rest) =
     (let n = of_char a * 65536 + of_char b * 256 + of_char c
      in [sextet (n div 262144), sextet (n div 4096), sextet (n div 64), sextet n]
         @ toString_base64 rest)"

record image_source =
  src_type :: string
  media_type :: string
  data :: string

record image =
  img_type :: string
  source :: image_source
  description :: string

definition takeScreenshotTool_execute :: "engine \<Rightarrow> nat \<Rightarrow> string \<Rightarrow> image operation" where
  "takeScreenshotTool_execute E now path =
     andThen (perform E (Screenshot (if path \<noteq> [] then path
                                     else ''screenshot-'' @ show_nat now @ ''.png''))) (\<lambda>screenshotBytes.
     andThen (perform E (WaitForTimeout 500)) (\<lambda>_.
     (let base64 = toString_base64 screenshotBytes
      in resolve \<lparr> img_type = ''image'',
                   source = \<lparr> src_type = ''base64'', media_type = ''image/png'', data = base64 \<rparr>,
                   description = ''Current page screenshot'' \<rparr>)))"

section \<open>Parameter schemas\<close>

text \<open>
  The planner supplies the arguments of a call as a JSON object.  The schemas of the source
  are built from the validation library's \<open>z.string()\<close>, \<open>z.number()\<close>, \<open>.nullable()\<close> and
  \<open>.default(v)\<close>; the library is not part of the repository, and \<open>zparse\<close> follows its
  documented behaviour for these four: a string schema accepts exactly strings, a number
  schema exactly numbers, \<open>nullable\<close> also \<open>null\<close>, and \<open>default\<close> replaces a missing value.
  The argument is \<open>None\<close> when the key is missing from the object.  Numbers are integral in
  the model.
\<close>

datatype json = JNull | JString string | JNumber int | JBoolean bool

datatype zod = ZString | ZNumber | ZNullable zod | ZDefault zod json

fun zparse :: "zod \<Rightarrow> json option \<Rightarrow> json option" where
  "zparse ZString (Some (JString s)) = Some (JString s)"
| "zparse ZString _ = None"
| "zparse ZNumber (Some (JNumber n)) = Some (JNumber n)"
| "zparse ZNumber _ = None"
| "zparse (ZNullable t) (Some JNull) = Some JNull"
| "zparse (ZNullable t) v = zparse t v"
| "zparse (ZDefault t d) None = zparse t (Some d)"
| "zparse (ZDefault t d) v = zparse t v"

text \<open>
  The \<open>parameters\<close> of the tools the claims are about, each as the parser of its
  \<open>z.object\<close>: from the JSON object to the destructured arguments of \<open>execute\<close>.
\<close>

definition takeScreenshotTool_parameters :: "(string \<rightharpoonup> json) \<Rightarrow> string option" where
  "takeScreenshotTool_parameters args =
     (case zparse ZString (args ''path'') of Some (JString path) \<Rightarrow> Some path | _ \<Rightarrow> None)"

definition waitTool_parameters :: "(string \<rightharpoonup> json) \<Rightarrow> int option" where
  "waitTool_parameters args =
     (case zparse ZNumber (args ''duration'') of Some (JNumber duration) \<Rightarrow> Some duration | _ \<Rightarrow> None)"

definition extractPageElements_parameters :: "(string \<rightharpoonup> json) \<Rightarrow> string option option" where
  "extractPageElements_parameters args =
     (case zparse (ZDefault (ZNullable ZString) (JString ''form'')) (args ''selectionArea'') of
        Some (JString selectionArea) \<Rightarrow> Some (Some selectionArea)
      | Some JNull \<Rightarrow> Some None
      | _ \<Rightarrow> None)"

text \<open>
  Modelled from the spec: the tool wrapper of the agents library, which is not part of the
  repository.  The arguments are validated against the declared schema before the
  execution function runs; invalid arguments are rejected and never reach it.
\<close>

datatype 'a dispatch = Rejected | Executed 'a

definition invoke :: "('j \<Rightarrow> 'p option) \<Rightarrow> ('p \<Rightarrow> 's \<Rightarrow> 'r \<times> 's) \<Rightarrow> 'j \<Rightarrow> 's \<Rightarrow> 'r dispatch \<times> 's" where
  "invoke parameters execute args s =
     (case parameters args of
        None \<Rightarrow> (Rejected, s)
      | Some parsed \<Rightarrow> (case execute parsed s of (r, s') \<Rightarrow> (Executed r, s')))"

text \<open>
  Modelled from the spec: the failure handling of the same tool wrapper.  What the planner
  receives from a call is the wrapper's answer, not the bare outcome of \<open>execute\<close>: a
  failure raised by the execution function is captured and handed to the planner as a
  descriptive failure string in place of a success result, and the run goes on.
  \<open>errorFunction\<close> is the wrapper's rendering of the error as that string.
\<close>

datatype 'a tool_result = Refused | Failure string | Success 'a

definition tool_invoke ::
  "(error \<Rightarrow> string) \<Rightarrow> ('j \<Rightarrow> 'p option) \<Rightarrow> ('p \<Rightarrow> 's \<Rightarrow> (error + 'r) \<times> 's) \<Rightarrow> 'j \<Rightarrow> 's
     \<Rightarrow> 'r tool_result \<times> 's" where
  "tool_invoke errorFunction parameters execute args s =
     (case invoke parameters execute args s of
        (Rejected, s') \<Rightarrow> (Refused, s')
      | (Executed (Inl e), s') \<Rightarrow> (Failure (errorFunction e), s')
      | (Executed (Inr result), s') \<Rightarrow> (Success result, s'))"

section \<open>main\<close>

text \<open>The pictographs of the messages, as UTF-8 bytes.\<close>

definition thinking_face :: string where
  "thinking_face = [CHR 0xF0, CHR 0x9F, CHR 0xA4, CHR 0x94]"

definition warning_sign :: string where
  "warning_sign = [CHR 0xE2, CHR 0x9A, CHR 0xA0, CHR 0xEF, CHR 0xB8, CHR 0x8F]"

definition rocket :: string where
  "rocket = [CHR 0xF0, CHR 0x9F, CHR 0x9A, CHR 0x80]"

definition party_popper :: string where
  "party_popper = [CHR 0xF0, CHR 0x9F, CHR 0x8E, CHR 0x89]"

definition cross_mark :: string where
  "cross_mark = [CHR 0xE2, CHR 0x9D, CHR 0x8C]"

definition newline :: string where
  "newline = [CHR 0x0A]"

text \<open>
  \<open>askUser\<close> (lines 318-344): shows the question in a box and resolves with the operator's
  line, trimmed.  The line the operator types is the parameter \<open>answer\<close>.
\<close>

definition askUser :: "string \<Rightarrow> string \<Rightarrow> session \<Rightarrow> string \<times> session" where
  "askUser question answer s =
     (let s = console_log (Box (thinking_face @ '' '' @ question)) s
      in (trim answer, s))"

text \<open>
  The runner of the agents library (planner, tool dispatch and turn budget) is a parameter:
  given the task and \<open>maxTurns\<close> it works on the session and either resolves with the
  final output (\<open>None\<close> if there is none) or rejects, as it does when the budget is exhausted
  or anything it does not handle fails.
\<close>

type_synonym runner = "string \<Rightarrow> nat \<Rightarrow> string option operation"

definition default_task :: string where
  "default_task = ''Automate the login process on the website.''"

text \<open>Lines 426-437 of \<open>main\<close>: the task is obtained and reported.\<close>

definition main_intake :: "string \<Rightarrow> session \<Rightarrow> string \<times> session" where
  "main_intake answer s =
     (case askUser ''What do you want to automate today?'' answer s of (query, s) \<Rightarrow>
      (case (if query = [] \<or> length (trim query) = 0
             then (let query = default_task
                   in (query, console_log (Line (warning_sign @ ''  Using default task: '' @ query)) s))
             else (query, s)) of (query, s) \<Rightarrow>
       (query, console_log (Line (rocket @ '' Task: '' @ query)) s)))"

text \<open>Lines 442-476 of \<open>main\<close>: the run inside \<open>try\<close>/\<open>catch\<close>, then the teardown.\<close>

definition main_run :: "engine \<Rightarrow> runner \<Rightarrow> string \<Rightarrow> unit operation" where
  "main_run E run query =
     andThen
       (tryCatch
          (andThen (run query 30) (\<lambda>finalOutput.
           log (Box (party_popper @ '' Result:'' @ newline @
                     (if truthy finalOutput then interpolate finalOutput
                      else ''Task completed successfully!'')))))
          (\<lambda>error. log (Box (cross_mark @ '' Error:'' @ newline @ message error))))
       (\<lambda>_. andThen (perform E BrowserClose) (\<lambda>_. resolve ()))"

definition main :: "engine \<Rightarrow> runner \<Rightarrow> string \<Rightarrow> unit operation" where
  "main E run answer s =
     (case main_intake answer s of (query, s) \<Rightarrow> main_run E run query s)"

section \<open>Example pages, engines and calls\<close>

text \<open>A login page: a form, an e-mail field with id \<open>email\<close> and a submit input with id \<open>submit\<close>.\<close>

definition login_form :: element where
  "login_form = \<lparr> tagName = ''FORM'', type_attribute = None, el_id = Some ''login'',
     el_name = Some [], el_type = None, el_placeholder = None, el_className = Some [],
     el_value = None, el_required = None, el_textContent = Some [],
     el_action = Some ''https://example.com/login'', offsetParent_null = False \<rparr>"

definition email_input :: element where
  "email_input = \<lparr> tagName = ''INPUT'', type_attribute = Some ''email'', el_id = Some ''email'',
     el_name = Some ''email'', el_type = Some ''email'', el_placeholder = Some [],
     el_className = Some [], el_value = Some [], el_required = Some True,
     el_textContent = Some [], el_action = None, offsetParent_null = False \<rparr>"

definition submit_input :: element where
  "submit_input = \<lparr> tagName = ''INPUT'', type_attribute = Some ''submit'', el_id = Some ''submit'',
     el_name = Some [], el_type = Some ''submit'', el_placeholder = Some [],
     el_className = Some ''btn  primary'', el_value = Some ''Sign in'', el_required = Some False,
     el_textContent = Some [], el_action = None, offsetParent_null = False \<rparr>"

definition login_page :: document where
  "login_page = [login_form, email_input, submit_input]"

text \<open>
  An element named \<open>input\<close> that is no HTML form control: its \<open>id\<close> is the empty string
  and it has no \<open>name\<close>, \<open>type\<close> or \<open>placeholder\<close> property.
\<close>

definition bare_input :: element where
  "bare_input = \<lparr> tagName = ''input'', type_attribute = None, el_id = Some [],
     el_name = None, el_type = None, el_placeholder = None,
     el_className = None, el_value = None, el_required = None,
     el_textContent = Some [], el_action = None, offsetParent_null = False \<rparr>"

text \<open>
  An engine on whose page no selector becomes visible, one whose page is gone (capture and
  navigation reject), and one on which every command resolves.
\<close>

definition engine_never_visible :: engine where
  "engine_never_visible history c =
     (case c of WaitForSelector selector timeout \<Rightarrow>
                  Inl (Error (''Timeout '' @ show_nat timeout @ ''ms exceeded.''))
              | _ \<Rightarrow> Inr [])"

definition engine_capture_fails :: engine where
  "engine_capture_fails history c =
     (case c of Screenshot path \<Rightarrow> Inl (Error ''Target page has been closed'')
              | Goto url timeout \<Rightarrow> Inl (Error ''Target page has been closed'')
              | _ \<Rightarrow> Inr [])"

definition engine_ready :: engine where
  "engine_ready history c = Inr ''PNG''"

definition fresh_session :: session where
  "fresh_session = \<lparr> issued = [], console = [] \<rparr>"

text \<open>A run that ends with a final answer, and one that exhausts the turn budget.\<close>

definition runner_completes :: runner where
  "runner_completes query maxTurns = resolve (Some ''Logged in.'')"

definition runner_exhausts_budget :: runner where
  "runner_exhausts_budget query maxTurns s =
     (Inl (Error (''Max turns ('' @ show_nat maxTurns @ '') exceeded'')), s)"

text \<open>
  Argument objects: \<open>{}\<close>, \<open>{"path": ""}\<close>, \<open>{"path": "shot.png"}\<close> and
  \<open>{"duration": -5}\<close>.
\<close>

definition no_arguments :: "string \<rightharpoonup> json" where
  "no_arguments = Map.empty"

definition empty_path_arguments :: "string \<rightharpoonup> json" where
  "empty_path_arguments = [''path'' \<mapsto> JString []]"

definition shot_path_arguments :: "string \<rightharpoonup> json" where
  "shot_path_arguments = [''path'' \<mapsto> JString ''shot.png'']"

definition negative_duration_arguments :: "string \<rightharpoonup> json" where
  "negative_duration_arguments = [''duration'' \<mapsto> JNumber (- 5)]"

text \<open>An error rendering for the examples.\<close>

definition example_errorFunction :: "error \<Rightarrow> string" where
  "example_errorFunction e =
     ''An error occurred while running the tool. Please try again. Error: '' @ message e"

text \<open>
  A page with an element that offers no selector source, followed by the submit input; and
  an operator's line made of a space, a NO-BREAK SPACE and an IDEOGRAPHIC SPACE.
\<close>

definition sparse_page :: document where
  "sparse_page = [bare_input, submit_input]"

definition blank_line :: string where
  "blank_line = [CHR 0x20, CHR 0xC2, CHR 0xA0, CHR 0xE3, CHR 0x80, CHR 0x80]"

section \<open>The extraction: loops and queries\<close>

lemma forEach_from_push:
  "forEach_from i xs (\<lambda>x k c. push c (g x k)) acc = acc @ map (\<lambda>(k, x). g x k) (enumerate i xs)"
  by (induction xs arbitrary: i acc) (simp_all add: push_def)

lemma forEach_push:
  "forEach xs (\<lambda>x k c. push c (g x k)) acc = acc @ map (\<lambda>(k, x). g x k) (enumerate 0 xs)"
  by (simp add: forEach_def forEach_from_push)

lemma map_enumerate_ignoring_index: "map (\<lambda>(k, x). h x) (enumerate i xs) = map h xs"
  by (induction xs arbitrary: i) simp_all

lemma form_callback_push: "form_callback = (\<lambda>x k c. push c (form_object x k))"
  by (intro ext) (simp add: form_callback_def)

lemma input_callback_push:
  "input_callback = (\<lambda>x k c. push c (input_object x (input_selectorHints x)))"
  by (intro ext) (simp add: input_callback_def)

lemma button_callback_push:
  "button_callback = (\<lambda>x k c. push c (button_object x (button_selectorHints x)))"
  by (intro ext) (simp add: button_callback_def)

lemma query_forms: "querySelectorAll doc form_selector = filter is_form doc"
proof -
  have "list_ex (\<lambda>c. matches c e) form_selector = is_form e" for e
    by (simp add: form_selector_def is_form_def)
  then show ?thesis by (simp add: querySelectorAll_def)
qed

lemma query_fields: "querySelectorAll doc input_selector = filter is_field doc"
proof -
  have "list_ex (\<lambda>c. matches c e) input_selector = is_field e" for e
    by (simp add: input_selector_def is_field_def)
  then show ?thesis by (simp add: querySelectorAll_def)
qed

lemma query_clickables: "querySelectorAll doc button_selector = filter is_clickable doc"
proof -
  have "list_ex (\<lambda>c. matches c e) button_selector = is_clickable e" for e
    by (cases "type_attribute e") (auto simp: button_selector_def is_clickable_def)
  then show ?thesis by (simp add: querySelectorAll_def)
qed

lemma page_function_concat:
  "page_function doc focus = form_enumeration doc @ field_enumeration doc @ clickable_enumeration doc"
  by (simp add: page_function_def query_forms query_fields query_clickables
      form_callback_push input_callback_push button_callback_push forEach_push
      map_enumerate_ignoring_index
      form_enumeration_def field_enumeration_def clickable_enumeration_def)

lemma execute_concat:
  "extractPageElements_execute (Inr doc) selectionArea =
     Inr \<lparr> elements = form_enumeration doc @ field_enumeration doc @ clickable_enumeration doc \<rparr>"
  by (simp add: extractPageElements_execute_def page_function_concat)

lemma execute_Inr:
  assumes "extractPageElements_execute page selectionArea = Inr r"
  obtains doc where "page = Inr doc"
    and "elements r = form_enumeration doc @ field_enumeration doc @ clickable_enumeration doc"
proof (cases page)
  case (Inl e)
  with assms show ?thesis by (simp add: extractPageElements_execute_def)
next
  case (Inr doc)
  with assms have "elements r = form_enumeration doc @ field_enumeration doc @ clickable_enumeration doc"
    by (auto simp: execute_concat)
  with Inr that show ?thesis by blast
qed

lemma execute_segments:
  assumes "extractPageElements_execute page selectionArea = Inr r"
  obtains doc where "page = Inr doc"
    and "take (length (filter is_form doc)) (elements r) = form_enumeration doc"
    and "drop (length (filter is_form doc)) (elements r) = field_enumeration doc @ clickable_enumeration doc"
proof -
  from assms obtain doc where doc: "page = Inr doc"
    and els: "elements r = form_enumeration doc @ field_enumeration doc @ clickable_enumeration doc"
    by (rule execute_Inr)
  have "length (form_enumeration doc) = length (filter is_form doc)"
    by (simp add: form_enumeration_def)
  with els have "take (length (filter is_form doc)) (elements r) = form_enumeration doc"
    and "drop (length (filter is_form doc)) (elements r) = field_enumeration doc @ clickable_enumeration doc"
    by simp_all
  with doc that show ?thesis by blast
qed

lemma list_all2_map_same:
  "(\<And>x. x \<in> set xs \<Longrightarrow> P x (f x)) \<Longrightarrow> list_all2 P xs (map f xs)"
  by (simp add: list_all2_map2 list_all2_same)

lemma list_all2_nth_take:
  assumes "list_all2 P xs (take n ys)" and "k < length xs"
  shows "P (xs ! k) (ys ! k)"
proof -
  from assms have "P (xs ! k) (take n ys ! k)" and "k < length (take n ys)"
    by (auto simp: list_all2_conv_all_nth)
  then show ?thesis by simp
qed

lemma list_all2_nth_drop:
  assumes "list_all2 P xs (drop n ys)" and "k < length xs"
  shows "P (xs ! k) (ys ! (n + k))"
proof -
  from assms have "P (xs ! k) (drop n ys ! k)" and "k < length (drop n ys)"
    by (auto simp: list_all2_conv_all_nth)
  then show ?thesis by simp
qed

lemma form_enumeration_no_candidates:
  "d \<in> set (form_enumeration doc) \<Longrightarrow> selector_candidates d = None"
  by (auto simp: form_enumeration_def form_object_def)

lemma input_hints_id_first:
  "el_id e = Some i \<Longrightarrow> i \<noteq> [] \<Longrightarrow> \<exists>rest. input_selectorHints e = (''#'' @ i) # rest"
  by (simp add: input_selectorHints_def push_def truthy_def interpolate_def Let_def)

lemma button_hints_id_first:
  "el_id e = Some i \<Longrightarrow> i \<noteq> [] \<Longrightarrow> \<exists>rest. button_selectorHints e = (''#'' @ i) # rest"
  by (simp add: button_selectorHints_def push_def truthy_def interpolate_def Let_def)

lemma input_hints_empty: "input_selectorHints e \<noteq> [] \<longleftrightarrow> input_has_source e"
  by (simp add: input_selectorHints_def input_has_source_def push_def Let_def)

lemma button_hints_empty: "button_selectorHints e \<noteq> [] \<longleftrightarrow> button_has_source e"
  by (simp add: button_selectorHints_def button_has_source_def push_def Let_def)

section \<open>Claims about \<open>extract_page_elements\<close>\<close>

text \<open>
  Claim C1.  Whenever \<open>extract_page_elements\<close> returns, the descriptors after the form
  entries (which carry no candidate list) are, in order, the descriptors of the document's
  input, textarea and select elements followed by those of its clickable controls, and the
  descriptor of every such element whose \<open>id\<close> is a non-empty string \<open>i\<close> has a candidate
  list beginning with \<open>#i\<close>.
\<close>

theorem id_selector_first:
  assumes "extractPageElements_execute page selectionArea = Inr r"
  shows "\<exists>doc. page = Inr doc
     \<and> (\<forall>d \<in> set (take (length (filter is_form doc)) (elements r)). selector_candidates d = None)
     \<and> list_all2
          (\<lambda>e d. \<forall>i. el_id e = Some i \<and> i \<noteq> [] \<longrightarrow>
                    (\<exists>rest. selector_candidates d = Some ((''#'' @ i) # rest)))
          (filter is_field doc @ filter is_clickable doc)
          (drop (length (filter is_form doc)) (elements r))"
proof -
  let ?P = "\<lambda>e d. \<forall>i. el_id e = Some i \<and> i \<noteq> [] \<longrightarrow>
                    (\<exists>rest. selector_candidates d = Some ((''#'' @ i) # rest))"
  from assms obtain doc where doc: "page = Inr doc"
    and forms: "take (length (filter is_form doc)) (elements r) = form_enumeration doc"
    and rest: "drop (length (filter is_form doc)) (elements r)
                 = field_enumeration doc @ clickable_enumeration doc"
    by (rule execute_segments)
  have fields: "list_all2 ?P (filter is_field doc) (field_enumeration doc)"
    unfolding field_enumeration_def
  proof (rule list_all2_map_same)
    fix e
    show "?P e (input_object e (input_selectorHints e))"
      using input_hints_id_first [of e] by (auto simp: input_object_def)
  qed
  have clickables: "list_all2 ?P (filter is_clickable doc) (clickable_enumeration doc)"
    unfolding clickable_enumeration_def
  proof (rule list_all2_map_same)
    fix e
    show "?P e (button_object e (button_selectorHints e))"
      using button_hints_id_first [of e] by (auto simp: button_object_def)
  qed
  from fields clickables
  have "list_all2 ?P (filter is_field doc @ filter is_clickable doc)
          (field_enumeration doc @ clickable_enumeration doc)"
    by (rule list_all2_appendI)
  with doc forms rest show ?thesis
    by (auto simp: form_enumeration_no_candidates)
qed

theorem id_selector_first_witness:
  "extractPageElements_execute (Inr login_page) None = Inr \<lparr> elements = page_function login_page ''form'' \<rparr>
   \<and> map_option hd (selector_candidates (page_function login_page ''form'' ! 1)) = Some ''#email''
   \<and> map_option hd (selector_candidates (page_function login_page ''form'' ! 3)) = Some ''#submit''"
proof -
  let ?els = "page_function login_page ''form''"
  let ?P = "\<lambda>e d. \<forall>i. el_id e = Some i \<and> i \<noteq> [] \<longrightarrow>
                    (\<exists>rest. selector_candidates d = Some ((''#'' @ i) # rest))"
  have h: "extractPageElements_execute (Inr login_page) None = Inr \<lparr> elements = ?els \<rparr>"
    by (simp add: extractPageElements_execute_def truthy_def)
  have forms: "filter is_form login_page = [login_form]"
    by (simp add: login_page_def login_form_def email_input_def submit_input_def is_form_def
        toLowerCase_def lower_char_def)
  have others: "filter is_field login_page @ filter is_clickable login_page
                  = [email_input, submit_input, submit_input]"
    by (simp add: login_page_def login_form_def email_input_def submit_input_def is_field_def
        is_clickable_def toLowerCase_def lower_char_def)
  from id_selector_first [OF h]
  have paired: "list_all2 ?P (filter is_field login_page @ filter is_clickable login_page)
                  (drop (length (filter is_form login_page)) ?els)"
    by simp
  from list_all2_nth_drop [OF paired, of 0] have "?P email_input (?els ! 1)"
    by (simp add: forms others)
  moreover from list_all2_nth_drop [OF paired, of 2] have "?P submit_input (?els ! 3)"
    by (simp add: forms others eval_nat_numeral)
  ultimately have "?P email_input (?els ! 1)" and "?P submit_input (?els ! 3)"
    by blast+
  then have "\<exists>rest. selector_candidates (?els ! 1) = Some (''#email'' # rest)"
    and "\<exists>rest. selector_candidates (?els ! 3) = Some (''#submit'' # rest)"
    by (simp_all add: email_input_def submit_input_def)
  with h show ?thesis by auto
qed

text \<open>
  Claim C5 as stated fails: every push onto \<open>selectorHints\<close> is guarded, so an extracted
  element that offers nothing to build a selector from gets an empty candidate list.
\<close>

theorem unidentified_input_counterexample:
  "extractPageElements_execute (Inr [bare_input]) None =
     Inr \<lparr> elements = [InputDescriptor \<lparr>
       in_tag = ''input'', in_type = None, in_id = Some [], in_name = None, in_className = None,
       in_placeholder = None, in_selectors = [], in_value = None, in_required = None,
       in_visible = True \<rparr>] \<rparr>"
  by (simp add: execute_concat bare_input_def
      form_enumeration_def field_enumeration_def clickable_enumeration_def
      is_form_def is_field_def is_clickable_def toLowerCase_def lower_char_def
      input_object_def input_selectorHints_def truthy_def)

text \<open>
  Claim C5, amended.  Whenever \<open>extract_page_elements\<close> returns, the descriptors after the
  form entries are, in order, those of the document's input, textarea and select elements
  and then those of its clickable controls; each has a candidate list, and that list is
  non-empty exactly when the element has a non-empty \<open>id\<close>, \<open>name\<close>, \<open>type\<close> or
  \<open>placeholder\<close> property (input, textarea, select), respectively a non-empty \<open>id\<close>, at
  least one class token or a non-empty \<open>type\<close> property (clickable control).  In
  particular it is non-empty for every element with a non-empty \<open>type\<close> property, as every
  HTML form control has.
\<close>

theorem candidates_nonempty_iff:
  assumes "extractPageElements_execute page selectionArea = Inr r"
  shows "\<exists>doc. page = Inr doc
     \<and> list_all2
          (\<lambda>e d. \<exists>candidates. selector_candidates d = Some candidates
                     \<and> (candidates \<noteq> [] \<longleftrightarrow> input_has_source e))
          (filter is_field doc)
          (take (length (filter is_field doc)) (drop (length (filter is_form doc)) (elements r)))
     \<and> list_all2
          (\<lambda>e d. \<exists>candidates. selector_candidates d = Some candidates
                     \<and> (candidates \<noteq> [] \<longleftrightarrow> button_has_source e))
          (filter is_clickable doc)
          (drop (length (filter is_field doc)) (drop (length (filter is_form doc)) (elements r)))"
proof -
  from assms obtain doc where doc: "page = Inr doc"
    and rest: "drop (length (filter is_form doc)) (elements r)
                 = field_enumeration doc @ clickable_enumeration doc"
    by (rule execute_segments)
  have len: "length (field_enumeration doc) = length (filter is_field doc)"
    by (simp add: field_enumeration_def)
  have fields: "list_all2
          (\<lambda>e d. \<exists>candidates. selector_candidates d = Some candidates
                     \<and> (candidates \<noteq> [] \<longleftrightarrow> input_has_source e))
          (filter is_field doc) (field_enumeration doc)"
    unfolding field_enumeration_def
    by (rule list_all2_map_same) (simp add: input_object_def input_hints_empty)
  have clickables: "list_all2
          (\<lambda>e d. \<exists>candidates. selector_candidates d = Some candidates
                     \<and> (candidates \<noteq> [] \<longleftrightarrow> button_has_source e))
          (filter is_clickable doc) (clickable_enumeration doc)"
    unfolding clickable_enumeration_def
    by (rule list_all2_map_same) (simp add: button_object_def button_hints_empty)
  have a: "take (length (filter is_field doc)) (drop (length (filter is_form doc)) (elements r))
          = field_enumeration doc"
    unfolding rest using len by simp
  have b: "drop (length (filter is_field doc)) (drop (length (filter is_form doc)) (elements r))
          = clickable_enumeration doc"
    unfolding rest using len by simp
  show ?thesis
  proof (rule exI [of _ doc], intro conjI)
    show "page = Inr doc" by (fact doc)
    show "list_all2
          (\<lambda>e d. \<exists>candidates. selector_candidates d = Some candidates
                     \<and> (candidates \<noteq> [] \<longleftrightarrow> input_has_source e))
          (filter is_field doc)
          (take (length (filter is_field doc)) (drop (length (filter is_form doc)) (elements r)))"
      unfolding a by (rule fields)
    show "list_all2
          (\<lambda>e d. \<exists>candidates. selector_candidates d = Some candidates
                     \<and> (candidates \<noteq> [] \<longleftrightarrow> button_has_source e))
          (filter is_clickable doc)
          (drop (length (filter is_field doc)) (drop (length (filter is_form doc)) (elements r)))"
      unfolding b by (rule clickables)
  qed
qed

theorem candidates_nonempty_iff_witness:
  "extractPageElements_execute (Inr sparse_page) None = Inr \<lparr> elements = page_function sparse_page ''form'' \<rparr>
   \<and> \<not> input_has_source bare_input
   \<and> selector_candidates (page_function sparse_page ''form'' ! 0) = Some []
   \<and> button_has_source submit_input
   \<and> selector_candidates (page_function sparse_page ''form'' ! 2) \<noteq> Some []
   \<and> selector_candidates (page_function sparse_page ''form'' ! 2) \<noteq> None"
proof -
  let ?els = "page_function sparse_page ''form''"
  let ?I = "\<lambda>e d. \<exists>candidates. selector_candidates d = Some candidates
                     \<and> (candidates \<noteq> [] \<longleftrightarrow> input_has_source e)"
  let ?B = "\<lambda>e d. \<exists>candidates. selector_candidates d = Some candidates
                     \<and> (candidates \<noteq> [] \<longleftrightarrow> button_has_source e)"
  have h: "extractPageElements_execute (Inr sparse_page) None = Inr \<lparr> elements = ?els \<rparr>"
    by (simp add: extractPageElements_execute_def truthy_def)
  have forms: "filter is_form sparse_page = []"
    by (simp add: sparse_page_def bare_input_def submit_input_def is_form_def
        toLowerCase_def lower_char_def)
  have fields: "filter is_field sparse_page = [bare_input, submit_input]"
    by (simp add: sparse_page_def bare_input_def submit_input_def is_field_def
        toLowerCase_def lower_char_def)
  have clickables: "filter is_clickable sparse_page = [submit_input]"
    by (simp add: sparse_page_def bare_input_def submit_input_def is_clickable_def
        toLowerCase_def lower_char_def)
  have bare: "\<not> input_has_source bare_input"
    by (simp add: input_has_source_def bare_input_def truthy_def)
  have submit: "button_has_source submit_input"
    by (simp add: button_has_source_def submit_input_def truthy_def)
  from candidates_nonempty_iff [OF h]
  have inputs: "list_all2 ?I (filter is_field sparse_page)
                  (take (length (filter is_field sparse_page))
                     (drop (length (filter is_form sparse_page)) ?els))"
    and buttons: "list_all2 ?B (filter is_clickable sparse_page)
                  (drop (length (filter is_field sparse_page))
                     (drop (length (filter is_form sparse_page)) ?els))"
    by simp_all
  from list_all2_nth_take [OF inputs, of 0] have first: "?I bare_input (?els ! 0)"
    by (simp add: forms fields)
  from list_all2_nth_drop [OF buttons, of 0] have third: "?B submit_input (?els ! 2)"
    by (simp add: forms fields clickables numeral_2_eq_2)
  from first bare third submit h show ?thesis
    by auto
qed

text \<open>
  Claim C6.  Whenever the page can be evaluated, \<open>extract_page_elements\<close> returns the form
  enumeration, then the input/textarea/select enumeration, then the clickable-control
  enumeration, each listing the matching elements of the document in document order.
  Nothing is removed across categories: the length of the result is the sum of the three
  category counts, so an element of two categories is listed once in each.
\<close>

theorem extraction_is_concatenation:
  "extractPageElements_execute (Inr doc) selectionArea =
     Inr \<lparr> elements = form_enumeration doc @ field_enumeration doc @ clickable_enumeration doc \<rparr>
   \<and> length (form_enumeration doc @ field_enumeration doc @ clickable_enumeration doc) =
       length (filter is_form doc) + length (filter is_field doc) + length (filter is_clickable doc)"
  by (simp add: execute_concat form_enumeration_def field_enumeration_def clickable_enumeration_def)

theorem extraction_is_concatenation_witness:
  "extractPageElements_execute (Inr [submit_input]) None =
     Inr \<lparr> elements = [input_object submit_input (input_selectorHints submit_input),
                        button_object submit_input (button_selectorHints submit_input)] \<rparr>"
  using extraction_is_concatenation [of "[submit_input]" None]
  by (simp add: form_enumeration_def field_enumeration_def clickable_enumeration_def
      is_form_def is_field_def is_clickable_def submit_input_def toLowerCase_def lower_char_def)

text \<open>
  Claim C10.  On the same page, \<open>extract_page_elements\<close> returns the same result whatever
  \<open>selectionArea\<close> it is given: the hint is handed to the page function and never read.
\<close>

theorem hint_is_ignored:
  "extractPageElements_execute page a = extractPageElements_execute page b"
  by (cases page) (simp_all add: extractPageElements_execute_def page_function_def)

theorem hint_is_ignored_witness:
  "extractPageElements_execute (Inr login_page) (Some ''buttons'') =
   extractPageElements_execute (Inr login_page) None"
  using hint_is_ignored [of "Inr login_page" "Some ''buttons''" None] by simp

section \<open>Claims about the interactive tools\<close>

text \<open>
  Claim C2.  If waiting for the target selector to become visible rejects (the selector
  did not reach the visible state within the 10000 ms allowed), then \<open>clickOnElement\<close> and
  \<open>type\<close> do not throw: each returns its failure string, naming the selector and carrying
  the error text.  The only command sent to the page is the wait itself: no click and no
  fill, neither the clearing one nor the writing one, is performed.
\<close>

theorem invisible_target_fails_cleanly:
  assumes "E (issued s) (WaitForSelector selector 10000) = Inl e"
  shows "clickOnElementTool_execute E selector s =
           (Inr (''Failed to click element '' @ selector @ '': '' @ message e),
            s\<lparr> issued := issued s @ [WaitForSelector selector 10000] \<rparr>)
       \<and> typeTool_execute E selector text s =
           (Inr (''Failed to type into element '' @ selector @ '': '' @ message e),
            s\<lparr> issued := issued s @ [WaitForSelector selector 10000] \<rparr>)"
  using assms
  by (simp add: clickOnElementTool_execute_def typeTool_execute_def tryCatch_def andThen_def
      perform_def resolve_def)

theorem invisible_target_fails_cleanly_witness:
  "clickOnElementTool_execute engine_never_visible ''#login'' fresh_session =
     (Inr ''Failed to click element #login: Timeout 10000ms exceeded.'',
      \<lparr> issued = [WaitForSelector ''#login'' 10000], console = [] \<rparr>)
   \<and> typeTool_execute engine_never_visible ''#login'' ''test@example.com'' fresh_session =
     (Inr ''Failed to type into element #login: Timeout 10000ms exceeded.'',
      \<lparr> issued = [WaitForSelector ''#login'' 10000], console = [] \<rparr>)"
proof -
  have t: "show_nat 10000 = ''10000''"
    by (simp add: show_nat.simps digit_char_def)
  have h: "engine_never_visible (issued fresh_session) (WaitForSelector ''#login'' 10000)
             = Inl (Error ''Timeout 10000ms exceeded.'')"
    by (simp add: engine_never_visible_def t)
  show ?thesis
    using invisible_target_fails_cleanly [of engine_never_visible fresh_session "''#login''"
        "Error ''Timeout 10000ms exceeded.''" "''test@example.com''", OF h]
    by (simp add: fresh_session_def)
qed

section \<open>Claims about \<open>take_screenshot\<close> and \<open>wait\<close>\<close>

lemma takeScreenshot_rejects:
  assumes "E (issued s) (Screenshot (if path \<noteq> [] then path
                                      else ''screenshot-'' @ show_nat now @ ''.png'')) = Inl e"
  shows "takeScreenshotTool_execute E now path s =
           (Inl e, s\<lparr> issued := issued s @
              [Screenshot (if path \<noteq> [] then path else ''screenshot-'' @ show_nat now @ ''.png'')] \<rparr>)"
  using assms by (simp add: takeScreenshotTool_execute_def andThen_def perform_def)

lemma takeScreenshot_first_command:
  "take (Suc (length (issued s))) (issued (snd (takeScreenshotTool_execute E now path s))) =
     issued s @ [Screenshot (if path \<noteq> [] then path else ''screenshot-'' @ show_nat now @ ''.png'')]"
  by (simp add: takeScreenshotTool_execute_def andThen_def perform_def resolve_def Let_def
      split: sum.splits)

lemma zparse_string_only:
  "(\<forall>path. v \<noteq> Some (JString path)) \<Longrightarrow> zparse ZString v = None"
proof (cases v)
  case None
  then show ?thesis by simp
next
  case (Some j)
  assume "\<forall>path. v \<noteq> Some (JString path)"
  with Some show ?thesis by (cases j) simp_all
qed

lemma zparse_number_only:
  "(\<forall>n. v \<noteq> Some (JNumber n)) \<Longrightarrow> zparse ZNumber v = None"
proof (cases v)
  case None
  then show ?thesis by simp
next
  case (Some j)
  assume "\<forall>n. v \<noteq> Some (JNumber n)"
  with Some show ?thesis by (cases j) simp_all
qed

text \<open>
  Claim C4.  \<open>execute\<close> of \<open>take_screenshot\<close> has no handler of its own: when the capture
  rejects, \<open>execute\<close> rejects after that one command.  The tool the planner calls is the
  wrapper around it, and for every call with a string path whose capture rejects with an
  error the call returns a failure result, the wrapper's rendering of that very error, in
  place of the image; nothing is thrown to the run, and the only command sent to the page
  is the capture.
\<close>

theorem capture_failure_is_reported:
  assumes "args ''path'' = Some (JString path)"
    and "E (issued s) (Screenshot (if path \<noteq> [] then path
                                    else ''screenshot-'' @ show_nat now @ ''.png'')) = Inl e"
  shows "tool_invoke errorFunction takeScreenshotTool_parameters (takeScreenshotTool_execute E now) args s =
           (Failure (errorFunction e),
            s\<lparr> issued := issued s @
                 [Screenshot (if path \<noteq> [] then path
                              else ''screenshot-'' @ show_nat now @ ''.png'')] \<rparr>)"
proof -
  from assms(1) have "takeScreenshotTool_parameters args = Some path"
    by (simp add: takeScreenshotTool_parameters_def)
  with assms(2) takeScreenshot_rejects [of E s path now e] show ?thesis
    by (simp add: tool_invoke_def invoke_def)
qed

theorem capture_failure_is_reported_witness:
  "tool_invoke example_errorFunction takeScreenshotTool_parameters
     (takeScreenshotTool_execute engine_capture_fails 0) shot_path_arguments fresh_session =
     (Failure ''An error occurred while running the tool. Please try again. Error: Target page has been closed'',
      \<lparr> issued = [Screenshot ''shot.png''], console = [] \<rparr>)"
proof -
  have h1: "shot_path_arguments ''path'' = Some (JString ''shot.png'')"
    by (simp add: shot_path_arguments_def)
  have h2: "engine_capture_fails (issued fresh_session)
              (Screenshot (if ''shot.png'' \<noteq> [] then ''shot.png''
                           else ''screenshot-'' @ show_nat 0 @ ''.png''))
              = Inl (Error ''Target page has been closed'')"
    by (simp add: engine_capture_fails_def)
  from capture_failure_is_reported [of shot_path_arguments "''shot.png''" engine_capture_fails
      fresh_session 0 "Error ''Target page has been closed''" example_errorFunction, OF h1 h2]
  show ?thesis
    by (simp add: example_errorFunction_def fresh_session_def)
qed

text \<open>
  Claim C7 as stated fails: the schema declares \<open>path\<close> as a plain string, so a call that
  omits it is rejected before \<open>execute\<close> runs and nothing is saved.
\<close>

theorem omitted_path_counterexample:
  "invoke takeScreenshotTool_parameters (takeScreenshotTool_execute engine_ready 0)
     no_arguments fresh_session = (Rejected, fresh_session)"
  by (simp add: invoke_def takeScreenshotTool_parameters_def no_arguments_def)

text \<open>
  Claim C7, amended.  The \<open>path\<close> parameter of \<open>take_screenshot\<close> is a required string: a
  call whose \<open>path\<close> is missing or not a string is rejected by the schema and sends
  nothing to the page.  A call with a string \<open>path\<close> is executed, and the first command it
  sends is the capture, saved under \<open>path\<close> if that is non-empty and under the default
  name \<open>screenshot-<time stamp>.png\<close> if it is the empty string.
\<close>

theorem screenshot_path_required:
  "((\<forall>p. args ''path'' \<noteq> Some (JString p)) \<longrightarrow>
      invoke takeScreenshotTool_parameters (takeScreenshotTool_execute E now) args s = (Rejected, s))
   \<and> (args ''path'' = Some (JString path) \<longrightarrow>
        fst (invoke takeScreenshotTool_parameters (takeScreenshotTool_execute E now) args s)
          = Executed (fst (takeScreenshotTool_execute E now path s))
      \<and> take (Suc (length (issued s)))
           (issued (snd (invoke takeScreenshotTool_parameters (takeScreenshotTool_execute E now) args s)))
          = issued s @ [Screenshot (if path = [] then ''screenshot-'' @ show_nat now @ ''.png''
                                    else path)])"
proof (intro conjI impI)
  assume "\<forall>p. args ''path'' \<noteq> Some (JString p)"
  then have "takeScreenshotTool_parameters args = None"
    by (simp add: takeScreenshotTool_parameters_def zparse_string_only)
  then show "invoke takeScreenshotTool_parameters (takeScreenshotTool_execute E now) args s
               = (Rejected, s)"
    by (simp add: invoke_def)
next
  assume "args ''path'' = Some (JString path)"
  then have "takeScreenshotTool_parameters args = Some path"
    by (simp add: takeScreenshotTool_parameters_def)
  then have inv: "invoke takeScreenshotTool_parameters (takeScreenshotTool_execute E now) args s =
      (Executed (fst (takeScreenshotTool_execute E now path s)),
       snd (takeScreenshotTool_execute E now path s))"
    by (simp add: invoke_def split: prod.splits)
  from inv show "fst (invoke takeScreenshotTool_parameters (takeScreenshotTool_execute E now) args s)
          = Executed (fst (takeScreenshotTool_execute E now path s))"
    by simp
  from inv takeScreenshot_first_command [of s E now path]
  show "take (Suc (length (issued s)))
           (issued (snd (invoke takeScreenshotTool_parameters (takeScreenshotTool_execute E now) args s)))
          = issued s @ [Screenshot (if path = [] then ''screenshot-'' @ show_nat now @ ''.png''
                                    else path)]"
    by (cases "path = []") simp_all
qed

theorem screenshot_path_required_witness:
  "invoke takeScreenshotTool_parameters (takeScreenshotTool_execute engine_ready 1700000000000)
     no_arguments fresh_session = (Rejected, fresh_session)
   \<and> take 1 (issued (snd (invoke takeScreenshotTool_parameters
                (takeScreenshotTool_execute engine_ready 1700000000000)
                empty_path_arguments fresh_session)))
       = [Screenshot ''screenshot-1700000000000.png'']"
proof -
  have t: "show_nat 1700000000000 = ''1700000000000''"
    by (simp add: show_nat.simps digit_char_def)
  have h1: "\<forall>p. no_arguments ''path'' \<noteq> Some (JString p)"
    by (simp add: no_arguments_def)
  have h2: "empty_path_arguments ''path'' = Some (JString [])"
    by (simp add: empty_path_arguments_def)
  from screenshot_path_required [of no_arguments engine_ready 1700000000000 fresh_session "[]"] h1
    screenshot_path_required [of empty_path_arguments engine_ready 1700000000000 fresh_session "[]"] h2
  show ?thesis
    by (simp add: t fresh_session_def)
qed

text \<open>
  Claim C8 as stated fails: the schema of \<open>wait\<close> declares \<open>duration\<close> as a number without
  any bound, so a negative duration passes validation and is executed.
\<close>

theorem negative_duration_counterexample:
  "invoke waitTool_parameters (waitTool_execute engine_ready) negative_duration_arguments fresh_session
     = (Executed (Inr ''Waited for -5 milliseconds.''),
        \<lparr> issued = [WaitForTimeout (- 5)], console = [] \<rparr>)"
  by (simp add: invoke_def waitTool_parameters_def waitTool_execute_def andThen_def perform_def
      resolve_def engine_ready_def fresh_session_def negative_duration_arguments_def
      show_int_def show_nat.simps digit_char_def)

text \<open>
  Claim C8, amended.  The schema of \<open>wait\<close> constrains \<open>duration\<close> to be a number and
  nothing more: every call with a numeric duration, negative or not, passes validation,
  reaches the execution function and sends that duration to the page's timeout wait; a
  call whose \<open>duration\<close> is missing or not a number is rejected and never reaches it.
\<close>

theorem wait_accepts_every_number:
  "(args ''duration'' = Some (JNumber duration) \<longrightarrow>
      invoke waitTool_parameters (waitTool_execute E) args s =
        (Executed (fst (waitTool_execute E duration s)), snd (waitTool_execute E duration s))
      \<and> issued (snd (waitTool_execute E duration s)) = issued s @ [WaitForTimeout duration])
   \<and> ((\<forall>n. args ''duration'' \<noteq> Some (JNumber n)) \<longrightarrow>
      invoke waitTool_parameters (waitTool_execute E) args s = (Rejected, s))"
proof (intro conjI impI)
  assume "args ''duration'' = Some (JNumber duration)"
  then have "waitTool_parameters args = Some duration"
    by (simp add: waitTool_parameters_def)
  then show "invoke waitTool_parameters (waitTool_execute E) args s =
        (Executed (fst (waitTool_execute E duration s)), snd (waitTool_execute E duration s))"
    by (simp add: invoke_def split: prod.splits)
next
  show "issued (snd (waitTool_execute E duration s)) = issued s @ [WaitForTimeout duration]"
    by (simp add: waitTool_execute_def andThen_def perform_def resolve_def split: sum.splits)
next
  assume "\<forall>n. args ''duration'' \<noteq> Some (JNumber n)"
  then have "waitTool_parameters args = None"
    by (simp add: waitTool_parameters_def zparse_number_only)
  then show "invoke waitTool_parameters (waitTool_execute E) args s = (Rejected, s)"
    by (simp add: invoke_def)
qed

theorem wait_accepts_every_number_witness:
  "fst (invoke waitTool_parameters (waitTool_execute engine_ready)
          negative_duration_arguments fresh_session) = Executed (Inr ''Waited for -5 milliseconds.'')
   \<and> issued (snd (waitTool_execute engine_ready (- 5) fresh_session)) = [WaitForTimeout (- 5)]
   \<and> invoke waitTool_parameters (waitTool_execute engine_ready) no_arguments fresh_session
       = (Rejected, fresh_session)"
proof -
  have h1: "negative_duration_arguments ''duration'' = Some (JNumber (- 5))"
    by (simp add: negative_duration_arguments_def)
  have h2: "\<forall>n. no_arguments ''duration'' \<noteq> Some (JNumber n)"
    by (simp add: no_arguments_def)
  have r: "fst (waitTool_execute engine_ready (- 5) fresh_session) = Inr ''Waited for -5 milliseconds.''"
    by (simp add: waitTool_execute_def andThen_def perform_def resolve_def engine_ready_def
        show_int_def show_nat.simps digit_char_def)
  from wait_accepts_every_number [of negative_duration_arguments "- 5" engine_ready fresh_session] h1
    wait_accepts_every_number [of no_arguments 0 engine_ready fresh_session] h2 r
  show ?thesis
    by (simp add: fresh_session_def)
qed

section \<open>Claims about \<open>main\<close>\<close>

lemma main_run_issued:
  "issued (snd (main_run E run query s)) = issued (snd (run query 30 s)) @ [BrowserClose]"
  by (cases "run query 30 s"; cases "fst (run query 30 s)")
     (simp_all add: main_run_def andThen_def tryCatch_def log_def console_log_def perform_def
      resolve_def split: sum.splits prod.splits)

text \<open>
  Claim C3.  Whatever the run does, and whether it resolves with a final answer or rejects
  (turn budget exhausted, or any other failure it does not handle), \<open>main\<close> sends exactly
  one more command after the run has ended: the one that closes the browser.
\<close>

theorem teardown_always_runs:
  "issued (snd (main E run answer s)) =
     issued (snd (run (fst (main_intake answer s)) 30 (snd (main_intake answer s)))) @ [BrowserClose]"
  by (simp add: main_def main_run_issued split: prod.splits)

theorem teardown_always_runs_witness:
  "issued (snd (main engine_ready runner_completes ''log in'' fresh_session)) = [BrowserClose]
   \<and> issued (snd (main engine_ready runner_exhausts_budget ''log in'' fresh_session)) = [BrowserClose]"
  using teardown_always_runs [of engine_ready runner_completes "''log in''" fresh_session]
    teardown_always_runs [of engine_ready runner_exhausts_budget "''log in''" fresh_session]
  by (simp add: main_intake_def askUser_def console_log_def runner_completes_def resolve_def
      runner_exhausts_budget_def fresh_session_def split: prod.splits)

text \<open>
  Claim C9.  If the operator's line is empty or consists of white space only (so that
  trimming leaves nothing), \<open>main\<close> runs the fixed default task, and says so on the
  console: after the question it writes a line announcing that the default task is used,
  naming it, and then the task line with the default task.
\<close>

theorem empty_instruction_substituted:
  assumes "trim answer = []"
  shows "main_intake answer s =
           (default_task,
            s\<lparr> console := console s @
                 [Box (thinking_face @ '' What do you want to automate today?''),
                  Line (warning_sign @ ''  Using default task: '' @ default_task),
                  Line (rocket @ '' Task: '' @ default_task)] \<rparr>)
       \<and> main E run answer s =
           main_run E run default_task
            (s\<lparr> console := console s @
                 [Box (thinking_face @ '' What do you want to automate today?''),
                  Line (warning_sign @ ''  Using default task: '' @ default_task),
                  Line (rocket @ '' Task: '' @ default_task)] \<rparr>)"
  using assms
  by (simp add: main_def main_intake_def askUser_def console_log_def)

theorem empty_instruction_substituted_witness:
  "trim blank_line = []
   \<and> main_intake blank_line fresh_session =
       (''Automate the login process on the website.'',
        \<lparr> issued = [],
          console = [Box (thinking_face @ '' What do you want to automate today?''),
                     Line (warning_sign @ ''  Using default task: Automate the login process on the website.''),
                     Line (rocket @ '' Task: Automate the login process on the website.'')] \<rparr>)"
proof -
  have s: "trimStart blank_line = []"
    by (simp add: trimStart_def blank_line_def white_space_def strip.simps)
  have h: "trim blank_line = []"
    by (simp add: trim_def s trimEnd_def strip.simps white_space_def)
  show ?thesis
    using h empty_instruction_substituted [of blank_line fresh_session engine_ready runner_completes, OF h]
    by (simp add: fresh_session_def default_task_def)
qed

end
